theory Spec2Isabelle
  imports Main "HOL-Library.Char_ord"
begin

section \<open>Exceptions and Python helpers\<close>

text \<open>
  Every exception the modelled code can raise is a value. \<open>ValidationError\<close> is
  \<^verbatim>\<open>forms.ValidationError(message)\<close> of the GUI forms, \<open>ValidationErrors\<close> is
  the middleware's list of (attribute, message) pairs, \<open>TypeError\<close> is what
  \<^verbatim>\<open>len(None)\<close> raises, \<open>KeyError\<close> a missing dictionary key,
  \<open>UnboundLocalError\<close> the read of a local that was never assigned, and
  \<open>ExternalError\<close> stands for any exception raised by a call that leaves the
  repository (the notifier, the ORM, \<^verbatim>\<open>eval\<close>), tagged with the step that raised it.
  The translation function \<^verbatim>\<open>_()\<close> is the identity on messages.
\<close>

datatype error =
    ValidationError string
  | ValidationErrors "(string \<times> string) list"
  | TypeError
  | KeyError string
  | UnboundLocalError
  | ExternalError string

text \<open>\<^verbatim>\<open>'%d' % n\<close> and \<^verbatim>\<open>'%s' % n\<close> for a non-negative integer.\<close>

fun str_nat :: "nat \<Rightarrow> string" where
  "str_nat n =
     (if n < 10 then [''0123456789'' ! n]
      else str_nat (n div 10) @ [''0123456789'' ! (n mod 10)])"

declare str_nat.simps [simp del]

text \<open>\<^verbatim>\<open>len(x)\<close> where \<open>x\<close> may be \<^verbatim>\<open>None\<close>.\<close>

definition py_len :: "'a list option \<Rightarrow> error + nat" where
  "py_len x = (case x of None \<Rightarrow> Inl TypeError | Some xs \<Rightarrow> Inr (length xs))"

text \<open>Truth value of an optional string: \<^verbatim>\<open>None\<close> and \<^verbatim>\<open>''\<close> are false.\<close>

definition truthy :: "string option \<Rightarrow> bool" where
  "truthy v = (case v of None \<Rightarrow> False | Some s \<Rightarrow> s \<noteq> [])"

text \<open>\<^verbatim>\<open>v in (a, b, ...)\<close> for an optional string \<open>v\<close>.\<close>

definition in_tuple :: "string option \<Rightarrow> string list \<Rightarrow> bool" where
  "in_tuple v xs = (case v of None \<Rightarrow> False | Some s \<Rightarrow> s \<in> set xs)"

text \<open>The decimal digits 0 to 9.\<close>

definition is_digit :: "char \<Rightarrow> bool" where
  "is_digit c = (CHR ''0'' \<le> c \<and> c \<le> CHR ''9'')"

section \<open>storage/forms.py: VolumeVdevForm\<close>

text \<open>
  The \<^verbatim>\<open>cleaned_data\<close> of one layout row. A key that is absent (the field failed its
  validation, or the row is an empty extra form) reads as \<^verbatim>\<open>None\<close> through
  \<^verbatim>\<open>cleaned_data.get\<close>. After \<open>clean_disks\<close> the value of \<open>disks\<close> is the list of
  device names.
\<close>

record vdev_row =
  vdevtype :: "string option"
  disks :: "string list option"

definition errmsg :: "nat \<Rightarrow> string" where
  "errmsg n = ''You need at least '' @ str_nat n @ '' disks''"

text \<open>
  \<open>clean_disks\<close>: \<open>vdev\<close> is \<^verbatim>\<open>cleaned_data.get("vdevtype")\<close>, \<open>raw\<close> the text of the
  \<open>disks\<close> field. Python's \<^verbatim>\<open>eval\<close> is a parameter: it yields the parsed list (the local
  \<open>disks\<close>, here \<open>parsed\<close>) or raises.
\<close>

definition clean_disks ::
  "(string \<Rightarrow> error + string list) \<Rightarrow> string option \<Rightarrow> string \<Rightarrow> error + string list" where
  "clean_disks py_eval vdev raw =
     (case py_eval raw of
        Inl e \<Rightarrow> Inl e
      | Inr parsed \<Rightarrow>
          if vdev = Some ''mirror'' \<and> length parsed < 2 then Inl (ValidationError (errmsg 2))
          else if vdev = Some ''raidz'' \<and> length parsed < 3 then Inl (ValidationError (errmsg 3))
          else if vdev = Some ''raidz2'' \<and> length parsed < 4 then Inl (ValidationError (errmsg 4))
          else if vdev = Some ''raidz3'' \<and> length parsed < 5 then Inl (ValidationError (errmsg 5))
          else Inr parsed)"

text \<open>
  \<open>VolumeVdevForm.clean\<close>. The conjunction is evaluated left to right, so the length
  of \<open>disks\<close> is taken only for a \<open>log\<close> row.
\<close>

definition VolumeVdevForm_clean :: "vdev_row \<Rightarrow> error + vdev_row" where
  "VolumeVdevForm_clean cleaned_data =
     (if vdevtype cleaned_data = Some ''log'' then
        (case py_len (disks cleaned_data) of
           Inl e \<Rightarrow> Inl e
         | Inr n \<Rightarrow>
             if n > 1 then Inr (cleaned_data\<lparr>vdevtype := Some ''log mirror''\<rparr>)
             else Inr cleaned_data)
      else Inr cleaned_data)"

section \<open>storage/forms.py: VdevFormSet\<close>

definition DATA_TYPES :: "string list" where
  "DATA_TYPES = [''mirror'', ''stripe'', ''raidz'', ''raidz2'', ''raidz3'']"

definition AUX_TYPES :: "string list" where
  "AUX_TYPES = [''cache'', ''log'', ''log mirror'', ''spare'']"

definition only_one_msg :: "string \<Rightarrow> string" where
  "only_one_msg name =
     ''Only one row for the vitual device of type '' @ name @ '' is allowed.''"

text \<open>
  \<open>_clean_vdevtype\<close>: \<open>vdevfound\<close> is the \<^verbatim>\<open>defaultdict(lambda: False)\<close>, a total
  function from names to booleans; the updated dictionary is returned.
\<close>

definition clean_vdevtype :: "(string \<Rightarrow> bool) \<Rightarrow> string option \<Rightarrow> error + (string \<Rightarrow> bool)" where
  "clean_vdevtype vdevfound vt =
     (case vt of
        None \<Rightarrow> Inr vdevfound
      | Some t \<Rightarrow>
          if t \<in> set AUX_TYPES then
            (let name = (if t = ''log mirror'' then ''log'' else t) in
             if vdevfound name then Inl (ValidationError (only_one_msg name))
             else Inr (vdevfound(name := True)))
          else Inr vdevfound)"

definition different_types_msg :: "string \<Rightarrow> string \<Rightarrow> string" where
  "different_types_msg vdev1 vdev2 =
     ''You are not allowed to create a volume with different data vdev types (''
       @ vdev1 @ '' and '' @ vdev2 @ '')''"

text \<open>
  The loop of the branch that creates a volume, over \<open>self.forms\<close> in order, with the
  locals \<open>vdevfound\<close>, \<open>has_datavdev\<close> and \<open>datatype\<close> (here \<open>data_type\<close>) as
  accumulators.
\<close>

fun new_volume_loop ::
  "vdev_row list \<Rightarrow> (string \<Rightarrow> bool) \<Rightarrow> bool \<Rightarrow> string option
     \<Rightarrow> error + ((string \<Rightarrow> bool) \<times> bool \<times> string option)" where
  "new_volume_loop [] vdevfound has_datavdev data_type =
     Inr (vdevfound, has_datavdev, data_type)"
| "new_volume_loop (form # forms) vdevfound has_datavdev data_type =
     (if in_tuple (vdevtype form) DATA_TYPES then
        (case data_type of
           Some d \<Rightarrow>
             if Some d \<noteq> vdevtype form then
               Inl (ValidationError
                      (different_types_msg d (case vdevtype form of Some t \<Rightarrow> t | None \<Rightarrow> [])))
             else new_volume_loop forms vdevfound True (vdevtype form)
         | None \<Rightarrow> new_volume_loop forms vdevfound True (vdevtype form))
      else
        (case clean_vdevtype vdevfound (vdevtype form) of
           Inl e \<Rightarrow> Inl e
         | Inr vdevfound' \<Rightarrow> new_volume_loop forms vdevfound' has_datavdev data_type))"

text \<open>
  The first loop of the branch that appends to a pool: rows without a vdev type are
  skipped, auxiliary rows go through \<open>_clean_vdevtype\<close>.
\<close>

fun append_aux_loop :: "vdev_row list \<Rightarrow> (string \<Rightarrow> bool) \<Rightarrow> error + (string \<Rightarrow> bool)" where
  "append_aux_loop [] vdevfound = Inr vdevfound"
| "append_aux_loop (form # forms) vdevfound =
     (if \<not> truthy (vdevtype form) then append_aux_loop forms vdevfound
      else if in_tuple (vdevtype form) AUX_TYPES then
        (case clean_vdevtype vdevfound (vdevtype form) of
           Inl e \<Rightarrow> Inl e
         | Inr vdevfound' \<Rightarrow> append_aux_loop forms vdevfound')
      else append_aux_loop forms vdevfound)"

text \<open>
  A data vdev of the existing pool, as \<^verbatim>\<open>notifier().zpool_parse\<close> reports it: its
  type and its devices (\<^verbatim>\<open>list(iter(vdev))\<close>).
\<close>

record pool_vdev =
  vtype :: string
  devs :: "string list"

definition type_mismatch_msg :: "string \<Rightarrow> string \<Rightarrow> string" where
  "type_mismatch_msg addtype pooltype =
     ''You are trying to add a virtual device of type '' @ [CHR 0x27] @ addtype @ [CHR 0x27]
       @ '' in a pool that has a virtual device of type '' @ [CHR 0x27] @ pooltype @ [CHR 0x27]"

definition count_mismatch_msg :: "nat \<Rightarrow> nat \<Rightarrow> string" where
  "count_mismatch_msg addnum vdevnum =
     ''You are trying to add a virtual device consisting of '' @ str_nat addnum
       @ '' device(s) in a pool that has a virtual device consisting of ''
       @ str_nat vdevnum @ '' device(s)''"

text \<open>
  The body of the inner loop for one pool vdev and one row that is neither empty nor
  auxiliary: the list \<open>errors\<close> it builds.
\<close>

definition pair_errors :: "pool_vdev \<Rightarrow> vdev_row \<Rightarrow> error + string list" where
  "pair_errors vdev form =
     (let t = (case vdevtype form of Some t \<Rightarrow> t | None \<Rightarrow> []);
          errors1 = (if vtype vdev \<noteq> t then [type_mismatch_msg t (vtype vdev)] else [])
      in case py_len (disks form) of
           Inl e \<Rightarrow> Inl e
         | Inr n \<Rightarrow>
             Inr (errors1 @
                  (if n \<noteq> length (devs vdev)
                   then [count_mismatch_msg n (length (devs vdev))] else [])))"

fun match_forms :: "pool_vdev \<Rightarrow> vdev_row list \<Rightarrow> error + unit" where
  "match_forms vdev [] = Inr ()"
| "match_forms vdev (form # forms) =
     (if \<not> truthy (vdevtype form) then match_forms vdev forms
      else if in_tuple (vdevtype form) AUX_TYPES then match_forms vdev forms
      else
        (case pair_errors vdev form of
           Inl e \<Rightarrow> Inl e
         | Inr [] \<Rightarrow> match_forms vdev forms
         | Inr (e # _) \<Rightarrow> Inl (ValidationError e)))"

fun match_pool :: "pool_vdev list \<Rightarrow> vdev_row list \<Rightarrow> error + unit" where
  "match_pool [] forms = Inr ()"
| "match_pool (vdev # vdevs) forms =
     (case match_forms vdev forms of
        Inl e \<Rightarrow> Inl e
      | Inr _ \<Rightarrow> match_pool vdevs forms)"

text \<open>
  \<open>VdevFormSet.clean\<close>. \<open>errors\<close> is \<open>self.errors\<close>, one list of messages per form
  (\<^verbatim>\<open>any\<close> is true when some form has a message); \<open>volume_add\<close> is
  \<^verbatim>\<open>self.pform.cleaned_data.get("volume_add")\<close>; \<open>zpool_parse\<close> gives the data vdevs
  of the named pool. The method returns \<^verbatim>\<open>None\<close> or raises.
\<close>

definition VdevFormSet_clean ::
  "(string \<Rightarrow> pool_vdev list) \<Rightarrow> string list list \<Rightarrow> string option \<Rightarrow> vdev_row list
     \<Rightarrow> error + unit" where
  "VdevFormSet_clean zpool_parse errors volume_add forms =
     (if list_ex (\<lambda>e. e \<noteq> []) errors then Inr ()
      else if \<not> truthy volume_add then
        (case new_volume_loop forms (\<lambda>_. False) False None of
           Inl e \<Rightarrow> Inl e
         | Inr (vdevfound, has_datavdev, data_type) \<Rightarrow>
             if \<not> has_datavdev then Inl (ValidationError ''You need a data disk group'')
             else Inr ())
      else
        (let zpool = zpool_parse (case volume_add of Some v \<Rightarrow> v | None \<Rightarrow> []) in
         case append_aux_loop forms (\<lambda>_. False) of
           Inl e \<Rightarrow> Inl e
         | Inr vdevfound \<Rightarrow> match_pool zpool forms))"

section \<open>Python regular expressions\<close>

text \<open>
  \<^verbatim>\<open>str.lower\<close> on one character, and the case folding of \<^verbatim>\<open>re.I\<close>: the letters A to Z
  are moved to a to z. Characters are the 8-bit characters of HOL strings.
\<close>

definition lower :: "char \<Rightarrow> char" where
  "lower c = (if CHR ''A'' \<le> c \<and> c \<le> CHR ''Z'' then char_of (of_char c + (32::nat)) else c)"

text \<open>
  An item of a character class: one character, a range, or the dot (any character but
  a newline). With \<^verbatim>\<open>re.I\<close> (\<open>ic\<close>) a character also matches through its lower-case
  form; the ranges of the modelled patterns are lower-case letters and digits.
\<close>

datatype cset = One char | Range char char | Dot

fun cset_has :: "bool \<Rightarrow> cset \<Rightarrow> char \<Rightarrow> bool" where
  "cset_has ic (One d) c = (if ic then lower c = lower d else c = d)"
| "cset_has ic (Range lo hi) c =
     ((lo \<le> c \<and> c \<le> hi) \<or> (ic \<and> lo \<le> lower c \<and> lower c \<le> hi))"
| "cset_has ic Dot c = (c \<noteq> CHR 0x0A)"

text \<open>
  The fragment of the pattern language the modelled patterns use: a character class,
  alternation, sequence and star; \<open>Opt\<close> is \<^verbatim>\<open>(...)?\<close>, \<open>Plus\<close> is \<^verbatim>\<open>+\<close>, \<open>Lit\<close> a
  literal word. The patterns have no back-references, so whether a backtracking matcher
  finds a match is membership in the pattern's language; it is decided here with
  derivatives.
\<close>

datatype rx = Nul | Eps | Cls "cset list" | Alt rx rx | Seq rx rx | Star rx

definition Opt :: "rx \<Rightarrow> rx" where "Opt r = Alt r Eps"

definition Plus :: "rx \<Rightarrow> rx" where "Plus r = Seq r (Star r)"


definition cls_has :: "bool \<Rightarrow> cset list \<Rightarrow> char \<Rightarrow> bool" where
  "cls_has ic cs c = list_ex (\<lambda>x. cset_has ic x c) cs"

fun nullable :: "rx \<Rightarrow> bool" where
  "nullable Nul = False"
| "nullable Eps = True"
| "nullable (Cls cs) = False"
| "nullable (Alt r s) = (nullable r \<or> nullable s)"
| "nullable (Seq r s) = (nullable r \<and> nullable s)"
| "nullable (Star r) = True"

fun deriv :: "bool \<Rightarrow> char \<Rightarrow> rx \<Rightarrow> rx" where
  "deriv ic c Nul = Nul"
| "deriv ic c Eps = Nul"
| "deriv ic c (Cls cs) = (if cls_has ic cs c then Eps else Nul)"
| "deriv ic c (Alt r s) = Alt (deriv ic c r) (deriv ic c s)"
| "deriv ic c (Seq r s) =
     (if nullable r then Alt (Seq (deriv ic c r) s) (deriv ic c s) else Seq (deriv ic c r) s)"
| "deriv ic c (Star r) = Seq (deriv ic c r) (Star r)"

text \<open>
  \<open>matches\<close>: the whole string matches the pattern. \<open>matches_prefix\<close>: some prefix of
  the string does, which is \<^verbatim>\<open>re.search\<close> for a pattern that starts with \<^verbatim>\<open>^\<close> and has no
  \<^verbatim>\<open>$\<close>.
\<close>

fun matches :: "bool \<Rightarrow> rx \<Rightarrow> string \<Rightarrow> bool" where
  "matches ic r [] = nullable r"
| "matches ic r (c # cs) = matches ic (deriv ic c r) cs"


text \<open>
  A pattern \<^verbatim>\<open>^r$\<close>: Python's \<^verbatim>\<open>$\<close> matches at the end of the string and also just before
  a newline that ends the string. The result is the text \<open>r\<close> matched, or \<open>None\<close>.
\<close>

definition re_anchored :: "bool \<Rightarrow> rx \<Rightarrow> string \<Rightarrow> string option" where
  "re_anchored ic r s =
     (if matches ic r s then Some s
      else if s \<noteq> [] \<and> last s = CHR 0x0A \<and> matches ic r (butlast s) then Some (butlast s)
      else None)"

text \<open>
  A pattern \<^verbatim>\<open>^(g1)(g2)?$\<close> and its \<^verbatim>\<open>match.groups()\<close>: the text of the first group and
  the text of the second, \<^verbatim>\<open>None\<close> when the second group took no part. The longest
  first group is tried first, as the greedy operators do.
\<close>

definition split_groups ::
  "bool \<Rightarrow> rx \<Rightarrow> rx \<Rightarrow> string \<Rightarrow> (string \<times> string option) option" where
  "split_groups ic g1 g2 s =
     map_option (\<lambda>k. (take k s, if matches ic g2 (drop k s) then Some (drop k s) else None))
       (find (\<lambda>k. matches ic g1 (take k s) \<and> (matches ic g2 (drop k s) \<or> drop k s = []))
             (rev [0..<Suc (length s)]))"

definition re_match2 ::
  "bool \<Rightarrow> rx \<Rightarrow> rx \<Rightarrow> string \<Rightarrow> (string \<times> string option) option" where
  "re_match2 ic g1 g2 s =
     (case split_groups ic g1 g2 s of
        Some g \<Rightarrow> Some g
      | None \<Rightarrow>
          if s \<noteq> [] \<and> last s = CHR 0x0A then split_groups ic g1 g2 (butlast s) else None)"

section \<open>storage/forms.py: VolumeMixin.clean_volume_name\<close>

text \<open>
  The patterns of \<open>clean_volume_name\<close>: \<^verbatim>\<open>^[a-z][-_.a-z0-9]*$\<close> (used with \<^verbatim>\<open>re.I\<close>),
  \<^verbatim>\<open>^c[0-9].*\<close>, and \<^verbatim>\<open>^mirror.*\<close>, \<^verbatim>\<open>^spare.*\<close>, \<^verbatim>\<open>^raidz.*\<close>.
\<close>

definition NAME_RE :: rx where
  "NAME_RE = Seq (Cls [Range (CHR ''a'') (CHR ''z'')])
               (Star (Cls [One (CHR ''-''), One (CHR ''_''), One (CHR ''.''),
                           Range (CHR ''a'') (CHR ''z''), Range (CHR ''0'') (CHR ''9'')]))"





section \<open>storage/forms.py: _clean_zfssize_fields\<close>

text \<open>
  The two groups of the pattern \<^verbatim>\<open>^(\d+(?:\.\d+)?)([BKMGTP](?:iB)?)?$\<close>, compiled with
  \<^verbatim>\<open>re.I\<close>.
\<close>

definition SIZE_NUM :: rx where
  "SIZE_NUM = Seq (Plus (Cls [Range (CHR ''0'') (CHR ''9'')]))
                (Opt (Seq (Cls [One (CHR ''.'')]) (Plus (Cls [Range (CHR ''0'') (CHR ''9'')]))))"

definition SIZE_SUF :: rx where
  "SIZE_SUF = Seq (Cls [One (CHR ''B''), One (CHR ''K''), One (CHR ''M''),
                        One (CHR ''G''), One (CHR ''T''), One (CHR ''P'')])
                (Opt (Seq (Cls [One (CHR ''i'')]) (Cls [One (CHR ''B'')])))"



text \<open>
  The two dictionaries of the form the function works on: \<open>cleaned_data\<close> (the local
  \<open>cdata\<close>) and \<open>form._errors\<close>, here \<open>form_errors\<close>, which holds a list of messages
  per field.
\<close>

record zform =
  cleaned_data :: "string \<rightharpoonup> string"
  form_errors :: "string \<rightharpoonup> string list"






section \<open>storage/forms.py: VolumeManagerForm.save\<close>

text \<open>
  The rows the method touches: a \<open>Volume\<close> row with its name and encryption level, and
  the \<open>Scrub\<close> rows by the name of their volume. \<open>deleted\<close> logs every call of
  \<open>Volume.delete\<close> with its arguments \<open>destroy\<close> and \<open>cascade\<close>.
\<close>

record volume_row =
  vol_name :: string
  vol_encrypt :: nat


text \<open>
  The calls of \<open>save\<close> that leave the repository and may raise: the lookup
  \<^verbatim>\<open>models.Volume.objects.filter\<close> with \<^verbatim>\<open>count()\<close>, \<^verbatim>\<open>volume.save()\<close>, the notifier calls and
  the creation of the Scrub row. Which of them raise is a parameter \<open>fails\<close> of the model;
  the exception carries the name of the call.
\<close>

datatype step =
    VolumeFilter | VolumeSave | AttachGroup nat | CreateVolume | SetOption | ScrubCreate
  | GeliPassphrase | VolumeResave | SyncFileSend | ReloadDisk | StartSyslogd
  | RestartSystemDatasets | RestartCron | SmartdLookup | RestartSmartd

fun step_call :: "step \<Rightarrow> string" where
  "step_call VolumeFilter = ''models.Volume.objects.filter''"
| "step_call VolumeSave = ''volume.save''"
| "step_call (AttachGroup i) = ''zfs_volume_attach_group''"
| "step_call CreateVolume = ''create_volume''"
| "step_call SetOption = ''zfs_set_option''"
| "step_call ScrubCreate = ''models.Scrub.objects.create''"
| "step_call GeliPassphrase = ''geli_passphrase''"
| "step_call VolumeResave = ''volume.save''"
| "step_call SyncFileSend = ''sync_file_send''"
| "step_call ReloadDisk = ''reload disk''"
| "step_call StartSyslogd = ''start ix-syslogd''"
| "step_call RestartSystemDatasets = ''restart system_datasets''"
| "step_call RestartCron = ''restart cron''"
| "step_call SmartdLookup = ''services.objects.get''"
| "step_call RestartSmartd = ''restart smartd''"

text \<open>
  The locals the exception handler reads; \<open>add\<close> is unbound (\<open>None\<close>) until the lookup
  has returned.
\<close>

record save_locals =
  add :: "bool option"
  volume :: "volume_row option"
  scrub :: "string option"


text \<open>
  A sequence of external calls: the first one that fails raises.
\<close>

fun run_steps :: "(step \<Rightarrow> bool) \<Rightarrow> step list \<Rightarrow> error option" where
  "run_steps fails [] = None"
| "run_steps fails (s # ss) =
     (if fails s then Some (ExternalError (step_call s)) else run_steps fails ss)"







section \<open>middlewared/plugins/cron.py: CronJobService\<close>








section \<open>Specification-side notions for the layout forms\<close>

text \<open>The minimum number of disks per vdev type, as the specification lists it.\<close>

definition vdev_minimum :: "string option \<Rightarrow> nat option" where
  "vdev_minimum vdev =
     (if vdev = Some ''mirror'' then Some 2
      else if vdev = Some ''raidz'' then Some 3
      else if vdev = Some ''raidz2'' then Some 4
      else if vdev = Some ''raidz3'' then Some 5
      else None)"

text \<open>
  The auxiliary name of a row: cache, log or spare, with log mirror counted as log;
  \<open>None\<close> for every other row.
\<close>

definition aux_name :: "vdev_row \<Rightarrow> string option" where
  "aux_name form =
     (case vdevtype form of
        None \<Rightarrow> None
      | Some t \<Rightarrow>
          if t \<in> set AUX_TYPES then Some (if t = ''log mirror'' then ''log'' else t)
          else None)"

definition aux_names :: "vdev_row list \<Rightarrow> string list" where
  "aux_names forms = List.map_filter aux_name forms"

text \<open>The data vdev type of a row, if it has one.\<close>

definition data_type_of :: "vdev_row \<Rightarrow> string option" where
  "data_type_of form =
     (case vdevtype form of
        None \<Rightarrow> None
      | Some t \<Rightarrow> if t \<in> set DATA_TYPES then Some t else None)"

definition data_types :: "vdev_row list \<Rightarrow> string list" where
  "data_types forms = List.map_filter data_type_of forms"

text \<open>The first name of a list that occurs earlier in it (or in \<open>seen\<close>).\<close>

fun first_repeat :: "string list \<Rightarrow> string list \<Rightarrow> string option" where
  "first_repeat seen [] = None"
| "first_repeat seen (n # ns) = (if n \<in> set seen then Some n else first_repeat (n # seen) ns)"

text \<open>All types of a list are the same (and equal to \<open>d\<close>, when given).\<close>

fun same_types :: "string option \<Rightarrow> string list \<Rightarrow> bool" where
  "same_types d [] = True"
| "same_types d (t # ts) = ((d = None \<or> d = Some t) \<and> same_types (Some t) ts)"

text \<open>The type and the disks of a row that has them.\<close>

definition row_type :: "vdev_row \<Rightarrow> string" where
  "row_type form = (case vdevtype form of Some t \<Rightarrow> t | None \<Rightarrow> [])"

definition row_disks :: "vdev_row \<Rightarrow> string list" where
  "row_disks form = (case disks form of Some ds \<Rightarrow> ds | None \<Rightarrow> [])"

text \<open>The submitted rows that are neither empty nor auxiliary.\<close>

definition submitted :: "vdev_row list \<Rightarrow> vdev_row list" where
  "submitted forms =
     filter (\<lambda>f. truthy (vdevtype f) \<and> \<not> in_tuple (vdevtype f) AUX_TYPES) forms"

text \<open>
  A pool vdev and a row mismatch when they differ in type or in number of devices; the
  message reports the type first. The first mismatch is sought with the pool's vdevs
  as the outer order.
\<close>

definition mismatch :: "pool_vdev \<Rightarrow> vdev_row \<Rightarrow> bool" where
  "mismatch v f = (vtype v \<noteq> row_type f \<or> length (row_disks f) \<noteq> length (devs v))"

definition mismatch_msg :: "pool_vdev \<Rightarrow> vdev_row \<Rightarrow> string" where
  "mismatch_msg v f =
     (if vtype v \<noteq> row_type f then type_mismatch_msg (row_type f) (vtype v)
      else count_mismatch_msg (length (row_disks f)) (length (devs v)))"

definition first_mismatch :: "pool_vdev list \<Rightarrow> vdev_row list \<Rightarrow> (pool_vdev \<times> vdev_row) option" where
  "first_mismatch zpool forms =
     find (\<lambda>(v, f). mismatch v f) (List.product zpool (submitted forms))"

text \<open>Every submitted non-auxiliary row has its list of disks.\<close>

definition rows_complete :: "vdev_row list \<Rightarrow> bool" where
  "rows_complete forms = list_all (\<lambda>f. disks f \<noteq> None) (submitted forms)"

section \<open>Specification-side notions for names and sizes\<close>




text \<open>
  Letters, and the characters a volume name may continue with.
\<close>

definition is_letter :: "char \<Rightarrow> bool" where
  "is_letter c = ((CHR ''a'' \<le> c \<and> c \<le> CHR ''z'') \<or> (CHR ''A'' \<le> c \<and> c \<le> CHR ''Z''))"

definition name_char :: "char \<Rightarrow> bool" where
  "name_char c = (is_letter c \<or> is_digit c \<or> c \<in> set ''-_.'')"

text \<open>
  A name that starts with a letter and continues with letters, digits, \<open>-\<close>, \<open>_\<close> or
  \<open>.\<close>; matching the pattern \<^verbatim>\<open>^[a-z][-_.a-z0-9]*$\<close> allows in addition one final newline.
\<close>

definition name_shape :: "string \<Rightarrow> bool" where
  "name_shape s = (case s of [] \<Rightarrow> False | c # cs \<Rightarrow> is_letter c \<and> list_all name_char cs)"

definition matches_name_pattern :: "string \<Rightarrow> bool" where
  "matches_name_pattern s =
     (name_shape s \<or> (s \<noteq> [] \<and> last s = CHR 0x0A \<and> name_shape (butlast s)))"













section \<open>Specification-side notions for save and the cron jobs\<close>








section \<open>Properties of VolumeVdevForm\<close>

text \<open>
  C1. Once the submitted text has been parsed into a list of disks, \<open>clean_disks\<close>
  raises the error "You need at least n disks" exactly when the vdev type has a minimum
  n (2 for mirror, 3 for raidz, 4 for raidz2, 5 for raidz3) and the list is shorter than
  n; in every other case, in particular for the types stripe, log, cache and spare
  whatever the length of the list, the parsed list is returned unchanged.
\<close>

theorem clean_disks_minimum:
  assumes "py_eval raw = Inr ds"
  shows "clean_disks py_eval vdev raw =
           (case vdev_minimum vdev of
              Some n \<Rightarrow> if length ds < n then Inl (ValidationError (errmsg n)) else Inr ds
            | None \<Rightarrow> Inr ds)
         \<and> (vdev \<in> {Some ''stripe'', Some ''log'', Some ''cache'', Some ''spare''}
              \<longrightarrow> clean_disks py_eval vdev raw = Inr ds)
         \<and> ((\<exists>m. clean_disks py_eval vdev raw = Inl (ValidationError m))
              \<longleftrightarrow> (\<exists>n. vdev_minimum vdev = Some n \<and> length ds < n))"
  using assms by (auto simp: clean_disks_def vdev_minimum_def)

theorem clean_disks_minimum_witness:
  "clean_disks (\<lambda>_. Inr [''ada0'', ''ada1'']) (Some ''raidz'') ''x''
     = Inl (ValidationError ''You need at least 3 disks'')
   \<and> clean_disks (\<lambda>_. Inr [''ada0'', ''ada1'']) (Some ''mirror'') ''x''
     = Inr [''ada0'', ''ada1'']
   \<and> clean_disks (\<lambda>_. Inr []) (Some ''stripe'') ''x'' = Inr []"
  using clean_disks_minimum [of "\<lambda>_. Inr [''ada0'', ''ada1'']" "''x''" "[''ada0'', ''ada1'']" "Some ''raidz''"]
        clean_disks_minimum [of "\<lambda>_. Inr [''ada0'', ''ada1'']" "''x''" "[''ada0'', ''ada1'']" "Some ''mirror''"]
        clean_disks_minimum [of "\<lambda>_. Inr []" "''x''" "[]" "Some ''stripe''"]
  by (simp add: vdev_minimum_def errmsg_def str_nat.simps)

text \<open>
  With the disks of the row present, \<open>VolumeVdevForm.clean\<close> rewrites log to log mirror
  exactly when more than one disk is selected, and leaves every other row as it is.
\<close>

lemma VolumeVdevForm_clean_present:
  "VolumeVdevForm_clean \<lparr>vdevtype = vt, disks = Some ds\<rparr> =
     Inr \<lparr>vdevtype = (if vt = Some ''log'' \<and> length ds > 1 then Some ''log mirror'' else vt),
          disks = Some ds\<rparr>"
  by (simp add: VolumeVdevForm_clean_def py_len_def)

text \<open>
  C9. The rewrite of log to log mirror is claimed never to raise. A log row whose
  \<open>disks\<close> field failed its own validation (for instance, no disk selected) has no
  \<open>disks\<close> key in its cleaned data; \<open>clean\<close> still runs, takes the length of
  \<^verbatim>\<open>None\<close>, and raises \<open>TypeError\<close>.
\<close>

theorem VolumeVdevForm_clean_log_without_disks:
  "VolumeVdevForm_clean \<lparr>vdevtype = Some ''log'', disks = None\<rparr> = Inl TypeError"
  by (simp add: VolumeVdevForm_clean_def py_len_def)

section \<open>Properties of VdevFormSet\<close>

lemma aux_names_Cons:
  "aux_names (f # fs) = (case aux_name f of None \<Rightarrow> aux_names fs | Some n \<Rightarrow> n # aux_names fs)"
  by (simp add: aux_names_def split: option.splits)

lemma data_types_Cons:
  "data_types (f # fs) = (case data_type_of f of None \<Rightarrow> data_types fs | Some n \<Rightarrow> n # data_types fs)"
  by (simp add: data_types_def split: option.splits)

lemma aux_names_Nil [simp]: "aux_names [] = []"
  by (simp add: aux_names_def)

lemma data_types_Nil [simp]: "data_types [] = []"
  by (simp add: data_types_def)

lemma aux_names_append: "aux_names (xs @ ys) = aux_names xs @ aux_names ys"
  by (simp add: aux_names_def List.map_filter_def)

lemma data_types_append: "data_types (xs @ ys) = data_types xs @ data_types ys"
  by (simp add: data_types_def List.map_filter_def)

lemma clean_vdevtype_aux:
  "clean_vdevtype vf (vdevtype f) =
     (case aux_name f of
        None \<Rightarrow> Inr vf
      | Some n \<Rightarrow> if vf n then Inl (ValidationError (only_one_msg n)) else Inr (vf(n := True)))"
  by (simp add: clean_vdevtype_def aux_name_def Let_def split: option.splits)

lemma seen_update: "(\<lambda>n. n \<in> set seen)(x := True) = (\<lambda>n. n \<in> set (x # seen))"
  by (auto simp: fun_eq_iff)

lemma data_not_aux: "in_tuple (vdevtype f) DATA_TYPES \<Longrightarrow> aux_name f = None"
  by (auto simp: in_tuple_def aux_name_def DATA_TYPES_def AUX_TYPES_def split: option.splits)

lemma data_type_of_in: "in_tuple (vdevtype f) DATA_TYPES \<Longrightarrow> data_type_of f = vdevtype f"
  by (auto simp: in_tuple_def data_type_of_def split: option.splits)

lemma data_type_of_out: "\<not> in_tuple (vdevtype f) DATA_TYPES \<Longrightarrow> data_type_of f = None"
  by (auto simp: in_tuple_def data_type_of_def split: option.splits)

lemma falsy_not_aux: "\<not> truthy (vdevtype f) \<Longrightarrow> aux_name f = None"
  by (auto simp: truthy_def aux_name_def AUX_TYPES_def split: option.splits)

lemma aux_in_tuple: "in_tuple (vdevtype f) AUX_TYPES \<longleftrightarrow> aux_name f \<noteq> None"
  by (auto simp: in_tuple_def aux_name_def split: option.splits)

lemma first_repeat_None:
  "first_repeat seen ns = None \<longleftrightarrow> distinct ns \<and> set ns \<inter> set seen = {}"
  by (induction ns arbitrary: seen) auto

lemma append_aux_loop_char:
  "append_aux_loop forms (\<lambda>n. n \<in> set seen) =
     (case first_repeat seen (aux_names forms) of
        Some n \<Rightarrow> Inl (ValidationError (only_one_msg n))
      | None \<Rightarrow> Inr (\<lambda>n. n \<in> set (rev (aux_names forms) @ seen)))"
proof (induction forms arbitrary: seen)
  case Nil
  show ?case by simp
next
  case (Cons f fs)
  show ?case
  proof (cases "aux_name f")
    case None
    then show ?thesis
      using Cons.IH [of seen]
      by (simp add: aux_names_Cons aux_in_tuple split: option.splits)
  next
    case (Some n)
    then have t: "truthy (vdevtype f)" using falsy_not_aux by fastforce
    show ?thesis
      using Some t Cons.IH [of "n # seen"]
      by (simp add: aux_names_Cons aux_in_tuple clean_vdevtype_aux seen_update split: option.splits)
  qed
qed

lemma new_volume_loop_same:
  "same_types dt (data_types forms) \<Longrightarrow>
   new_volume_loop forms (\<lambda>n. n \<in> set seen) has dt =
     (case first_repeat seen (aux_names forms) of
        Some n \<Rightarrow> Inl (ValidationError (only_one_msg n))
      | None \<Rightarrow> Inr ((\<lambda>n. n \<in> set (rev (aux_names forms) @ seen)),
                    has \<or> data_types forms \<noteq> [],
                    (if data_types forms = [] then dt else Some (last (data_types forms)))))"
proof (induction forms arbitrary: seen has dt)
  case Nil
  show ?case by simp
next
  case (Cons f fs)
  show ?case
  proof (cases "in_tuple (vdevtype f) DATA_TYPES")
    case True
    then obtain t where t: "vdevtype f = Some t" by (auto simp: in_tuple_def split: option.splits)
    have dts: "data_types (f # fs) = t # data_types fs"
      using True t by (simp add: data_types_Cons data_type_of_in)
    have st: "same_types (Some t) (data_types fs)" and d: "dt = None \<or> dt = Some t"
      using Cons.prems dts by auto
    show ?thesis
      using True t d Cons.IH [OF st, of seen True] dts
      by (auto simp: aux_names_Cons data_not_aux split: option.splits)
  next
    case False
    have dts: "data_types (f # fs) = data_types fs"
      using False by (simp add: data_types_Cons data_type_of_out)
    have st: "same_types dt (data_types fs)" using Cons.prems dts by simp
    show ?thesis
    proof (cases "aux_name f")
      case None
      then show ?thesis
        using False dts Cons.IH [OF st, of seen has]
        by (simp add: aux_names_Cons clean_vdevtype_aux split: option.splits)
    next
      case (Some n)
      then show ?thesis
        using False dts Cons.IH [OF st, of "n # seen" has]
        by (simp add: aux_names_Cons clean_vdevtype_aux seen_update split: option.splits)
    qed
  qed
qed

lemma new_volume_loop_ok:
  "new_volume_loop forms (\<lambda>n. n \<in> set seen) has dt = Inr r \<Longrightarrow>
   same_types dt (data_types forms)"
proof (induction forms arbitrary: seen has dt)
  case Nil
  show ?case by simp
next
  case (Cons f fs)
  show ?case
  proof (cases "in_tuple (vdevtype f) DATA_TYPES")
    case True
    then obtain t where t: "vdevtype f = Some t" by (auto simp: in_tuple_def split: option.splits)
    have dts: "data_types (f # fs) = t # data_types fs"
      using True t by (simp add: data_types_Cons data_type_of_in)
    from Cons.prems True t have d: "dt = None \<or> dt = Some t"
      by (auto split: option.splits if_splits)
    from Cons.prems True t d have "new_volume_loop fs (\<lambda>n. n \<in> set seen) True (Some t) = Inr r"
      by (auto split: option.splits if_splits)
    from Cons.IH [OF this] d dts show ?thesis by simp
  next
    case False
    have dts: "data_types (f # fs) = data_types fs"
      using False by (simp add: data_types_Cons data_type_of_out)
    show ?thesis
    proof (cases "aux_name f")
      case None
      then show ?thesis
        using False dts Cons.prems Cons.IH [of seen has dt]
        by (simp add: clean_vdevtype_aux)
    next
      case (Some n)
      then show ?thesis
        using False dts Cons.prems Cons.IH [of "n # seen" has dt]
        by (simp add: clean_vdevtype_aux seen_update split: if_splits)
    qed
  qed
qed

lemma new_volume_loop_append:
  "new_volume_loop (xs @ ys) vf has dt =
     (case new_volume_loop xs vf has dt of
        Inl e \<Rightarrow> Inl e
      | Inr (vf', has', dt') \<Rightarrow> new_volume_loop ys vf' has' dt')"
  by (induction xs arbitrary: vf has dt) (auto split: option.splits sum.splits)

lemma clean_vdevtype_error:
  "clean_vdevtype vf vt = Inl e \<Longrightarrow> \<exists>n. e = ValidationError (only_one_msg n)"
  by (auto simp: clean_vdevtype_def Let_def split: option.splits if_splits)

lemma new_volume_loop_error:
  "new_volume_loop forms vf has dt = Inl e \<Longrightarrow>
   (\<exists>n. e = ValidationError (only_one_msg n)) \<or>
   (\<exists>a b. e = ValidationError (different_types_msg a b))"
proof (induction forms arbitrary: vf has dt)
  case Nil
  then show ?case by simp
next
  case (Cons f fs)
  show ?case
  proof (cases "in_tuple (vdevtype f) DATA_TYPES")
    case True
    then show ?thesis
      using Cons.prems Cons.IH [of vf True "vdevtype f"]
      by (auto split: option.splits if_splits)
  next
    case False
    show ?thesis
    proof (cases "clean_vdevtype vf (vdevtype f)")
      case (Inl e')
      then show ?thesis
        using Cons.prems False clean_vdevtype_error [of vf "vdevtype f" e'] by auto
    next
      case (Inr vf')
      then show ?thesis
        using Cons.prems False Cons.IH [of vf' has dt] by simp
    qed
  qed
qed

lemma msgs_distinct:
  "only_one_msg n \<noteq> different_types_msg a b"
  "only_one_msg n \<noteq> ''You need a data disk group''"
  "different_types_msg a b \<noteq> ''You need a data disk group''"
  by (simp_all add: only_one_msg_def different_types_msg_def)







lemma find_Some_mem: "find P xs = Some x \<Longrightarrow> x \<in> set xs \<and> P x"
  by (induction xs) (auto split: if_splits)

lemma first_mismatch_Some:
  "first_mismatch zpool forms = Some (v, f) \<Longrightarrow>
     v \<in> set zpool \<and> f \<in> set (submitted forms) \<and> mismatch v f"
  using find_Some_mem [of "\<lambda>(v, f). mismatch v f" "List.product zpool (submitted forms)" "(v, f)"]
  by (simp add: first_mismatch_def)

lemma data_types_empty:
  "data_types forms = [] \<longleftrightarrow> \<not> list_ex (\<lambda>f. in_tuple (vdevtype f) DATA_TYPES) forms"
proof (induction forms)
  case Nil
  show ?case by simp
next
  case (Cons f fs)
  then show ?case
    by (cases "in_tuple (vdevtype f) DATA_TYPES")
       (auto simp: data_types_Cons data_type_of_in data_type_of_out in_tuple_def
             split: option.splits)
qed

lemma same_types_single:
  "same_types (Some d) ts \<longleftrightarrow> (\<forall>t\<in>set ts. t = d)"
  by (induction ts arbitrary: d) auto

lemma same_types_iff:
  "same_types None ts \<longleftrightarrow> (\<forall>a\<in>set ts. \<forall>b\<in>set ts. a = b)"
proof (cases ts)
  case Nil
  then show ?thesis by simp
next
  case (Cons x xs)
  have a: "same_types None ts \<longleftrightarrow> (\<forall>t\<in>set xs. t = x)"
    using Cons by (simp add: same_types_single)
  have b: "(\<forall>t\<in>set xs. t = x) \<Longrightarrow> (\<forall>a\<in>set ts. \<forall>b\<in>set ts. a = b)"
    unfolding Cons by (metis set_ConsD)
  have c: "(\<forall>a\<in>set ts. \<forall>b\<in>set ts. a = b) \<Longrightarrow> (\<forall>t\<in>set xs. t = x)"
    unfolding Cons by (metis list.set_intros)
  show ?thesis using a b c by blast
qed

lemma same_types_last:
  assumes "same_types None ts" "t \<in> set ts"
  shows "last ts = t"
proof -
  have ne: "ts \<noteq> []" using assms(2) by auto
  then have "last ts \<in> set ts" by simp
  then show ?thesis using assms same_types_iff [of ts] by blast
qed

lemma first_repeat_mem: "first_repeat seen ns = Some n \<Longrightarrow> n \<in> set ns"
  by (induction ns arbitrary: seen) (auto split: if_splits)

lemma aux_name_range: "aux_name f = Some n \<Longrightarrow> n = ''cache'' \<or> n = ''log'' \<or> n = ''spare''"
  unfolding aux_name_def AUX_TYPES_def
  by (cases "vdevtype f") (simp_all split: if_splits)

lemma aux_names_subset: "n \<in> set (aux_names forms) \<Longrightarrow> n = ''cache'' \<or> n = ''log'' \<or> n = ''spare''"
proof (induction forms)
  case Nil
  then show ?case by simp
next
  case (Cons f fs)
  show ?case
  proof (cases "aux_name f")
    case None
    then show ?thesis using Cons by (simp add: aux_names_Cons)
  next
    case (Some m)
    then show ?thesis using Cons aux_name_range [OF Some] by (auto simp: aux_names_Cons)
  qed
qed

lemma clean_new:
  "\<not> list_ex (\<lambda>e. e \<noteq> []) errors \<Longrightarrow> \<not> truthy volume_add \<Longrightarrow>
   VdevFormSet_clean zp errors volume_add forms =
     (case new_volume_loop forms (\<lambda>n. n \<in> set []) False None of
        Inl e \<Rightarrow> Inl e
      | Inr (vdevfound, has_datavdev, data_type) \<Rightarrow>
          if \<not> has_datavdev then Inl (ValidationError ''You need a data disk group'')
          else Inr ())"
  by (simp add: VdevFormSet_clean_def)

lemma clean_append:
  "\<not> list_ex (\<lambda>e. e \<noteq> []) errors \<Longrightarrow> truthy volume_add \<Longrightarrow>
   VdevFormSet_clean zp errors volume_add forms =
     (case append_aux_loop forms (\<lambda>n. n \<in> set []) of
        Inl e \<Rightarrow> Inl e
      | Inr vdevfound \<Rightarrow>
          match_pool (zp (case volume_add of Some v \<Rightarrow> v | None \<Rightarrow> [])) forms)"
  by (simp add: VdevFormSet_clean_def)

lemma clean_new_same:
  assumes "\<not> list_ex (\<lambda>e. e \<noteq> []) errors" "\<not> truthy volume_add"
    and "same_types None (data_types forms)"
  shows "VdevFormSet_clean zp errors volume_add forms =
     (case first_repeat [] (aux_names forms) of
        Some n \<Rightarrow> Inl (ValidationError (only_one_msg n))
      | None \<Rightarrow> if data_types forms = []
                then Inl (ValidationError ''You need a data disk group'') else Inr ())"
  using new_volume_loop_same [OF assms(3), of "[]" False]
  by (simp add: clean_new [OF assms(1,2)] split: option.splits)

lemma clean_new_not_same:
  assumes "\<not> list_ex (\<lambda>e. e \<noteq> []) errors" "\<not> truthy volume_add"
    and "\<not> same_types None (data_types forms)"
  shows "(\<exists>n. VdevFormSet_clean zp errors volume_add forms = Inl (ValidationError (only_one_msg n)))
       \<or> (\<exists>a b. VdevFormSet_clean zp errors volume_add forms
                  = Inl (ValidationError (different_types_msg a b)))"
proof (cases "new_volume_loop forms (\<lambda>n. n \<in> set []) False None")
  case (Inl e)
  then show ?thesis
    using new_volume_loop_error [OF Inl] by (auto simp: clean_new [OF assms(1,2)])
next
  case (Inr r)
  then show ?thesis using new_volume_loop_ok [OF Inr] assms(3) by simp
qed


lemma clean_append_aux:
  assumes "\<not> list_ex (\<lambda>e. e \<noteq> []) errors" "truthy volume_add"
    and "first_repeat [] (aux_names forms) = Some n"
  shows "VdevFormSet_clean zp errors volume_add forms = Inl (ValidationError (only_one_msg n))"
  using append_aux_loop_char [of forms "[]"] assms(3)
  by (simp add: clean_append [OF assms(1,2)])

lemma clean_append_ok:
  assumes "\<not> list_ex (\<lambda>e. e \<noteq> []) errors" "truthy volume_add"
    and "VdevFormSet_clean zp errors volume_add forms = Inr ()"
  shows "first_repeat [] (aux_names forms) = None"
  using append_aux_loop_char [of forms "[]"] assms(3)
  by (simp add: clean_append [OF assms(1,2)] split: option.splits)

text \<open>
  Errors decided by a prefix of the rows when a volume is created, and the two ways a
  submission with a repeated auxiliary type can be cut.
\<close>

lemma clean_new_prefix_repeat:
  assumes "\<not> list_ex (\<lambda>e. e \<noteq> []) errors" "\<not> truthy volume_add"
    and "same_types None (data_types start)"
    and "first_repeat [] (aux_names start) = Some n"
  shows "VdevFormSet_clean zp errors volume_add (start @ rest)
           = Inl (ValidationError (only_one_msg n))"
proof -
  have "new_volume_loop start (\<lambda>n. n \<in> set []) False None
          = Inl (ValidationError (only_one_msg n))"
    using new_volume_loop_same [OF assms(3), of "[]" False] assms(4) by simp
  then have "new_volume_loop (start @ rest) (\<lambda>n. n \<in> set []) False None
          = Inl (ValidationError (only_one_msg n))"
    by (simp add: new_volume_loop_append)
  then show ?thesis by (simp add: clean_new [OF assms(1,2)])
qed

lemma data_type_of_Some:
  assumes "data_type_of f = Some t"
  shows "vdevtype f = Some t" and "in_tuple (Some t) DATA_TYPES"
  using assms by (auto simp: data_type_of_def in_tuple_def split: option.splits if_splits)

lemma clean_new_prefix_different:
  assumes "\<not> list_ex (\<lambda>e. e \<noteq> []) errors" "\<not> truthy volume_add"
    and "same_types None (data_types start)" and "distinct (aux_names start)"
    and "d \<in> set (data_types start)" and "data_type_of f = Some t" and "t \<noteq> d"
  shows "VdevFormSet_clean zp errors volume_add (start @ f # rest)
           = Inl (ValidationError (different_types_msg d t))"
proof -
  have fr: "first_repeat [] (aux_names start) = None"
    using assms(4) by (simp add: first_repeat_None)
  have ne: "data_types start \<noteq> []" using assms(5) by auto
  have l: "last (data_types start) = d" using same_types_last [OF assms(3,5)] .
  have pre: "new_volume_loop start (\<lambda>n. n \<in> set []) False None
               = Inr ((\<lambda>n. n \<in> set (rev (aux_names start) @ [])), True, Some d)"
    using new_volume_loop_same [OF assms(3), of "[]" False] fr ne l by simp
  have "new_volume_loop (start @ f # rest) (\<lambda>n. n \<in> set []) False None
          = Inl (ValidationError (different_types_msg d t))"
    using pre assms(7)
    by (simp add: new_volume_loop_append data_type_of_Some [OF assms(6)])
  then show ?thesis by (simp add: clean_new [OF assms(1,2)])
qed

lemma same_types_snoc:
  "same_types None (ts @ [t]) \<longleftrightarrow> same_types None ts \<and> (\<forall>d\<in>set ts. d = t)"
  unfolding same_types_iff by auto

lemma rows_split:
  "same_types None (data_types forms)
   \<or> (\<exists>start f rest d t. forms = start @ f # rest \<and> same_types None (data_types start)
        \<and> d \<in> set (data_types start) \<and> data_type_of f = Some t \<and> t \<noteq> d)"
proof (induction forms rule: rev_induct)
  case Nil
  show ?case by simp
next
  case (snoc x xs)
  show ?case
  proof (cases "same_types None (data_types xs)")
    case False
    then obtain start f rest d t where s: "xs = start @ f # rest"
        "same_types None (data_types start)" "d \<in> set (data_types start)"
        "data_type_of f = Some t" "t \<noteq> d"
      using snoc by blast
    then have "xs @ [x] = start @ f # (rest @ [x])" by simp
    then show ?thesis using s(2-5) by blast
  next
    case True
    show ?thesis
    proof (cases "same_types None (data_types (xs @ [x]))")
      case True
      then show ?thesis by simp
    next
      case False
      then obtain t where t: "data_type_of x = Some t"
        using True by (cases "data_type_of x") (auto simp: data_types_append data_types_Cons)
      then have "data_types (xs @ [x]) = data_types xs @ [t]"
        by (simp add: data_types_append data_types_Cons)
      then obtain d where d: "d \<in> set (data_types xs)" "d \<noteq> t"
        using False True by (auto simp: same_types_snoc)
      have "xs @ [x] = xs @ x # []" by simp
      then show ?thesis using True d t by blast
    qed
  qed
qed

lemma repeated_rows_split:
  assumes "\<not> distinct (aux_names forms)"
  shows "(\<exists>start rest n. forms = start @ rest \<and> same_types None (data_types start)
            \<and> first_repeat [] (aux_names start) = Some n)
       \<or> (\<exists>start f rest d t. forms = start @ f # rest \<and> same_types None (data_types start)
            \<and> distinct (aux_names start)
            \<and> d \<in> set (data_types start) \<and> data_type_of f = Some t \<and> t \<noteq> d)"
proof (cases "same_types None (data_types forms)")
  case True
  obtain n where "first_repeat [] (aux_names forms) = Some n"
    using assms first_repeat_None [of "[]" "aux_names forms"] by auto
  then have "forms = forms @ [] \<and> same_types None (data_types forms)
            \<and> first_repeat [] (aux_names forms) = Some n" using True by simp
  then show ?thesis by blast
next
  case False
  then obtain start f rest d t where s: "forms = start @ f # rest"
        "same_types None (data_types start)" "d \<in> set (data_types start)"
        "data_type_of f = Some t" "t \<noteq> d"
    using rows_split [of forms] by blast
  show ?thesis
  proof (cases "distinct (aux_names start)")
    case True
    then show ?thesis using s by blast
  next
    case False
    then obtain n where "first_repeat [] (aux_names start) = Some n"
      using first_repeat_None [of "[]" "aux_names start"] by auto
    then show ?thesis using s(1,2) by blast
  qed
qed

text \<open>The unfoldings that evaluate the formset on a concrete submission.\<close>

lemmas formset_eval =
  VdevFormSet_clean_def truthy_def in_tuple_def DATA_TYPES_def AUX_TYPES_def
  clean_vdevtype_def only_one_msg_def different_types_msg_def Let_def
  aux_names_def aux_name_def data_types_def data_type_of_def List.map_filter_simps
  submitted_def rows_complete_def first_mismatch_def mismatch_def mismatch_msg_def
  row_type_def row_disks_def type_mismatch_msg_def count_mismatch_msg_def
  pair_errors_def py_len_def str_nat.simps

text \<open>
  C2 (as amended). When a volume is created (\<open>volume_add\<close> empty) and no form has
  errors, \<open>VdevFormSet.clean\<close> raises "You need a data disk group" if and only if no
  row has a data vdev type and no auxiliary type (cache, log with log mirror counted as
  log, spare) occupies two rows. With no data row and a repeated auxiliary type, the
  error raised is the "Only one row" error of the first repeated type: the rows are
  checked in order and the data-group check comes after the loop.
\<close>

theorem need_data_disk_group:
  assumes "\<not> list_ex (\<lambda>e. e \<noteq> []) errors" and "\<not> truthy volume_add"
  shows "(VdevFormSet_clean zp errors volume_add forms
            = Inl (ValidationError ''You need a data disk group'')
          \<longleftrightarrow> \<not> list_ex (\<lambda>f. in_tuple (vdevtype f) DATA_TYPES) forms
               \<and> distinct (aux_names forms))
       \<and> (\<not> list_ex (\<lambda>f. in_tuple (vdevtype f) DATA_TYPES) forms
            \<and> \<not> distinct (aux_names forms)
          \<longrightarrow> (\<exists>n. first_repeat [] (aux_names forms) = Some n
                 \<and> VdevFormSet_clean zp errors volume_add forms
                     = Inl (ValidationError (only_one_msg n))))"
proof (cases "same_types None (data_types forms)")
  case True
  note c = clean_new_same [OF assms True, of zp]
  show ?thesis
  proof (cases "first_repeat [] (aux_names forms)")
    case None
    then have "distinct (aux_names forms)" by (simp add: first_repeat_None)
    then show ?thesis using c None by (simp add: data_types_empty)
  next
    case (Some n)
    then have "\<not> distinct (aux_names forms)"
      using first_repeat_None [of "[]" "aux_names forms"] by simp
    then show ?thesis using c Some msgs_distinct(2) [of n] by simp
  qed
next
  case False
  then have ne: "data_types forms \<noteq> []" by auto
  then have ex: "list_ex (\<lambda>f. in_tuple (vdevtype f) DATA_TYPES) forms"
    using data_types_empty [of forms] by simp
  have "VdevFormSet_clean zp errors volume_add forms
          \<noteq> Inl (ValidationError ''You need a data disk group'')"
    using clean_new_not_same [OF assms False, of zp] msgs_distinct(2,3) by auto
  then show ?thesis using ex by simp
qed

theorem need_data_disk_group_witness:
  "VdevFormSet_clean (\<lambda>_. []) [[], []] None
     [\<lparr>vdevtype = Some ''cache'', disks = Some [''ada0'']\<rparr>,
      \<lparr>vdevtype = Some ''log'', disks = Some [''ada1'']\<rparr>]
     = Inl (ValidationError ''You need a data disk group'')"
  using need_data_disk_group [of "[[], []]" None "\<lambda>_. []"
     "[\<lparr>vdevtype = Some ''cache'', disks = Some [''ada0'']\<rparr>,
       \<lparr>vdevtype = Some ''log'', disks = Some [''ada1'']\<rparr>]"]
  by (simp add: formset_eval)

text \<open>
  The claim as stated fails on two cache rows: no row is a data vdev, and the error is
  the "Only one row" error.
\<close>

theorem need_data_disk_group_counterexample:
  "VdevFormSet_clean (\<lambda>_. []) [[], []] None
     [\<lparr>vdevtype = Some ''cache'', disks = Some [''ada0'']\<rparr>,
      \<lparr>vdevtype = Some ''cache'', disks = Some [''ada1'']\<rparr>]
     = Inl (ValidationError ''Only one row for the vitual device of type cache is allowed.'')
   \<and> VdevFormSet_clean (\<lambda>_. []) [[], []] None
     [\<lparr>vdevtype = Some ''cache'', disks = Some [''ada0'']\<rparr>,
      \<lparr>vdevtype = Some ''cache'', disks = Some [''ada1'']\<rparr>]
     \<noteq> Inl (ValidationError ''You need a data disk group'')
   \<and> \<not> list_ex (\<lambda>f. in_tuple (vdevtype f) DATA_TYPES)
     [\<lparr>vdevtype = Some ''cache'', disks = Some [''ada0'']\<rparr>,
      \<lparr>vdevtype = Some ''cache'', disks = Some [''ada1'']\<rparr>]"
  by (simp add: formset_eval)

text \<open>
  C3 (as amended). When a volume is created and no form has errors: if a data row of
  type \<open>t\<close> follows rows whose data vdevs all have another type \<open>d\<close> and among which no
  auxiliary type is repeated, \<open>VdevFormSet.clean\<close> raises the "different data vdev
  types" error naming \<open>d\<close> and \<open>t\<close>; a formset whose data vdevs all share one type never
  gets that error, however many data rows it has; and a formset with two different data
  vdev types is always rejected with a validation error, which is the "Only one row"
  error when an auxiliary type is repeated among leading rows whose data vdevs share one
  type.
\<close>

theorem different_data_vdev_types:
  assumes "\<not> list_ex (\<lambda>e. e \<noteq> []) errors" and "\<not> truthy volume_add"
  shows "(forms = pre @ f # post \<and> same_types None (data_types pre)
            \<and> distinct (aux_names pre) \<and> d \<in> set (data_types pre)
            \<and> vdevtype f = Some t \<and> t \<in> set DATA_TYPES \<and> t \<noteq> d
          \<longrightarrow> VdevFormSet_clean zp errors volume_add forms
                = Inl (ValidationError (different_types_msg d t)))
       \<and> ((\<forall>a\<in>set (data_types forms). \<forall>b\<in>set (data_types forms). a = b)
          \<longrightarrow> (\<forall>a b. VdevFormSet_clean zp errors volume_add forms
                        \<noteq> Inl (ValidationError (different_types_msg a b))))
       \<and> (\<not> (\<forall>a\<in>set (data_types forms). \<forall>b\<in>set (data_types forms). a = b)
          \<longrightarrow> (\<exists>m. VdevFormSet_clean zp errors volume_add forms = Inl (ValidationError m)))
       \<and> (forms = start @ rest \<and> same_types None (data_types start)
            \<and> first_repeat [] (aux_names start) = Some n
          \<longrightarrow> VdevFormSet_clean zp errors volume_add forms
                = Inl (ValidationError (only_one_msg n)))"
proof (intro conjI impI)
  assume h: "forms = pre @ f # post \<and> same_types None (data_types pre)
            \<and> distinct (aux_names pre) \<and> d \<in> set (data_types pre)
            \<and> vdevtype f = Some t \<and> t \<in> set DATA_TYPES \<and> t \<noteq> d"
  then have st: "same_types None (data_types pre)" and dm: "d \<in> set (data_types pre)" by auto
  have fr: "first_repeat [] (aux_names pre) = None" using h by (simp add: first_repeat_None)
  have ne: "data_types pre \<noteq> []" using dm by auto
  have l: "last (data_types pre) = d" using same_types_last [OF st dm] .
  have pre: "new_volume_loop pre (\<lambda>n. n \<in> set []) False None
               = Inr ((\<lambda>n. n \<in> set (rev (aux_names pre) @ [])), True, Some d)"
    using new_volume_loop_same [OF st, of "[]" False] fr ne l by simp
  have f: "forms = pre @ f # post" "vdevtype f = Some t" "t \<in> set DATA_TYPES" "t \<noteq> d"
    using h by auto
  have "new_volume_loop forms (\<lambda>n. n \<in> set []) False None
          = Inl (ValidationError (different_types_msg d t))"
    using f pre by (simp add: new_volume_loop_append in_tuple_def)
  then show "VdevFormSet_clean zp errors volume_add forms
               = Inl (ValidationError (different_types_msg d t))"
    by (simp add: clean_new [OF assms])
next
  assume "\<forall>a\<in>set (data_types forms). \<forall>b\<in>set (data_types forms). a = b"
  then have st: "same_types None (data_types forms)" by (simp add: same_types_iff)
  show "\<forall>a b. VdevFormSet_clean zp errors volume_add forms
                 \<noteq> Inl (ValidationError (different_types_msg a b))"
    using msgs_distinct(1) msgs_distinct(3) [symmetric]
    by (auto simp: clean_new_same [OF assms st] split: option.splits if_splits)
next
  assume "\<not> (\<forall>a\<in>set (data_types forms). \<forall>b\<in>set (data_types forms). a = b)"
  then have st: "\<not> same_types None (data_types forms)" by (simp add: same_types_iff)
  show "\<exists>m. VdevFormSet_clean zp errors volume_add forms = Inl (ValidationError m)"
    using clean_new_not_same [OF assms st, of zp] by auto
next
  assume h: "forms = start @ rest \<and> same_types None (data_types start)
            \<and> first_repeat [] (aux_names start) = Some n"
  then have st: "same_types None (data_types start)"
    and fr: "first_repeat [] (aux_names start) = Some n" and f: "forms = start @ rest"
    by auto
  have "new_volume_loop start (\<lambda>n. n \<in> set []) False None
          = Inl (ValidationError (only_one_msg n))"
    using new_volume_loop_same [OF st, of "[]" False] fr by simp
  then have "new_volume_loop forms (\<lambda>n. n \<in> set []) False None
          = Inl (ValidationError (only_one_msg n))"
    unfolding f by (simp add: new_volume_loop_append)
  then show "VdevFormSet_clean zp errors volume_add forms
               = Inl (ValidationError (only_one_msg n))"
    by (simp add: clean_new [OF assms])
qed

theorem different_data_vdev_types_witness:
  "VdevFormSet_clean (\<lambda>_. []) [] None
     [\<lparr>vdevtype = Some ''mirror'', disks = Some [''ada0'', ''ada1'']\<rparr>,
      \<lparr>vdevtype = Some ''cache'', disks = Some [''ada2'']\<rparr>,
      \<lparr>vdevtype = Some ''raidz'', disks = Some [''ada3'', ''ada4'', ''ada5'']\<rparr>]
     = Inl (ValidationError
         ''You are not allowed to create a volume with different data vdev types (mirror and raidz)'')
   \<and> VdevFormSet_clean (\<lambda>_. []) [] None
     [\<lparr>vdevtype = Some ''mirror'', disks = Some [''ada0'', ''ada1'']\<rparr>,
      \<lparr>vdevtype = Some ''mirror'', disks = Some [''ada2'', ''ada3'']\<rparr>,
      \<lparr>vdevtype = Some ''mirror'', disks = Some [''ada4'', ''ada5'']\<rparr>]
     = Inr ()"
proof
  show "VdevFormSet_clean (\<lambda>_. []) [] None
     [\<lparr>vdevtype = Some ''mirror'', disks = Some [''ada0'', ''ada1'']\<rparr>,
      \<lparr>vdevtype = Some ''cache'', disks = Some [''ada2'']\<rparr>,
      \<lparr>vdevtype = Some ''raidz'', disks = Some [''ada3'', ''ada4'', ''ada5'']\<rparr>]
     = Inl (ValidationError
         ''You are not allowed to create a volume with different data vdev types (mirror and raidz)'')"
    using different_data_vdev_types [of "[]" None
       "[\<lparr>vdevtype = Some ''mirror'', disks = Some [''ada0'', ''ada1'']\<rparr>,
        \<lparr>vdevtype = Some ''cache'', disks = Some [''ada2'']\<rparr>,
        \<lparr>vdevtype = Some ''raidz'', disks = Some [''ada3'', ''ada4'', ''ada5'']\<rparr>]"
       "[\<lparr>vdevtype = Some ''mirror'', disks = Some [''ada0'', ''ada1'']\<rparr>,
        \<lparr>vdevtype = Some ''cache'', disks = Some [''ada2'']\<rparr>]"
       "\<lparr>vdevtype = Some ''raidz'', disks = Some [''ada3'', ''ada4'', ''ada5'']\<rparr>"
       "[]" "''mirror''" "''raidz''" "\<lambda>_. []"]
    by (simp add: truthy_def in_tuple_def DATA_TYPES_def AUX_TYPES_def
          different_types_msg_def aux_names_def aux_name_def data_types_def data_type_of_def
          List.map_filter_simps)
  show "VdevFormSet_clean (\<lambda>_. []) [] None
     [\<lparr>vdevtype = Some ''mirror'', disks = Some [''ada0'', ''ada1'']\<rparr>,
      \<lparr>vdevtype = Some ''mirror'', disks = Some [''ada2'', ''ada3'']\<rparr>,
      \<lparr>vdevtype = Some ''mirror'', disks = Some [''ada4'', ''ada5'']\<rparr>]
     = Inr ()"
    by (simp add: formset_eval)
qed

text \<open>
  The claim as stated fails when an auxiliary type is repeated before the second data
  type is met: the rows below carry mirror and raidz, and the error is the "Only one
  row" error.
\<close>

theorem different_data_vdev_types_counterexample:
  "VdevFormSet_clean (\<lambda>_. []) [] None
     [\<lparr>vdevtype = Some ''cache'', disks = Some [''ada0'']\<rparr>,
      \<lparr>vdevtype = Some ''cache'', disks = Some [''ada1'']\<rparr>,
      \<lparr>vdevtype = Some ''mirror'', disks = Some [''ada2'', ''ada3'']\<rparr>,
      \<lparr>vdevtype = Some ''raidz'', disks = Some [''ada4'', ''ada5'', ''ada6'']\<rparr>]
     = Inl (ValidationError ''Only one row for the vitual device of type cache is allowed.'')"
  by (simp add: formset_eval)




text \<open>
  C5 (as amended). When no form has errors, a formset is accepted only if each
  auxiliary type (cache, log with log mirror counted as log, spare) occupies at most one
  row, both when a volume is created and when vdevs are appended, and a second row of
  an auxiliary type always makes \<open>VdevFormSet.clean\<close> raise a validation error. When
  vdevs are appended it is the "Only one row" error for the first repeated type. When a
  volume is created it is the "Only one row" error for the type first repeated among
  leading rows whose data vdevs share one type, whatever follows them; the one
  exception is a data row whose type differs from that of an earlier data row and that
  comes before any auxiliary type is repeated: then the error is the "different data
  vdev types" error for that row. One of the two always applies.
\<close>

theorem one_row_per_auxiliary_type:
  assumes "\<not> list_ex (\<lambda>e. e \<noteq> []) errors"
  shows "(VdevFormSet_clean zp errors volume_add forms = Inr () \<longrightarrow> distinct (aux_names forms))
       \<and> (truthy volume_add \<and> \<not> distinct (aux_names forms)
          \<longrightarrow> (\<exists>n. first_repeat [] (aux_names forms) = Some n
                 \<and> n \<in> set [''cache'', ''log'', ''spare'']
                 \<and> VdevFormSet_clean zp errors volume_add forms
                     = Inl (ValidationError (only_one_msg n))))
       \<and> (\<not> truthy volume_add \<and> forms = start @ rest
            \<and> same_types None (data_types start)
            \<and> first_repeat [] (aux_names start) = Some n
          \<longrightarrow> n \<in> set [''cache'', ''log'', ''spare'']
              \<and> VdevFormSet_clean zp errors volume_add forms
                  = Inl (ValidationError (only_one_msg n)))
       \<and> (\<not> truthy volume_add \<and> \<not> distinct (aux_names forms)
          \<longrightarrow> (\<exists>pre post m. forms = pre @ post
                 \<and> same_types None (data_types pre)
                 \<and> first_repeat [] (aux_names pre) = Some m
                 \<and> VdevFormSet_clean zp errors volume_add forms
                     = Inl (ValidationError (only_one_msg m)))
              \<or> (\<exists>pre f post d t. forms = pre @ f # post
                 \<and> same_types None (data_types pre) \<and> distinct (aux_names pre)
                 \<and> d \<in> set (data_types pre) \<and> data_type_of f = Some t \<and> t \<noteq> d
                 \<and> VdevFormSet_clean zp errors volume_add forms
                     = Inl (ValidationError (different_types_msg d t))))
       \<and> (\<not> distinct (aux_names forms)
          \<longrightarrow> (\<exists>m. VdevFormSet_clean zp errors volume_add forms = Inl (ValidationError m)))"
proof -
  let ?c = "VdevFormSet_clean zp errors volume_add forms"
  have dup: "\<exists>n. first_repeat [] (aux_names forms) = Some n
               \<and> n \<in> set [''cache'', ''log'', ''spare'']"
    if nd: "\<not> distinct (aux_names forms)"
  proof -
    obtain n where n: "first_repeat [] (aux_names forms) = Some n"
      using nd first_repeat_None [of "[]" "aux_names forms"] by auto
    then show ?thesis using aux_names_subset [OF first_repeat_mem [OF n]] by auto
  qed
  have app: "?c = Inl (ValidationError (only_one_msg n))"
    if "truthy volume_add" "first_repeat [] (aux_names forms) = Some n" for n
    using clean_append_aux [OF assms that] .
  have new_cases: "(\<exists>pre post m. forms = pre @ post
                 \<and> same_types None (data_types pre)
                 \<and> first_repeat [] (aux_names pre) = Some m
                 \<and> ?c = Inl (ValidationError (only_one_msg m)))
              \<or> (\<exists>pre f post d t. forms = pre @ f # post
                 \<and> same_types None (data_types pre) \<and> distinct (aux_names pre)
                 \<and> d \<in> set (data_types pre) \<and> data_type_of f = Some t \<and> t \<noteq> d
                 \<and> ?c = Inl (ValidationError (different_types_msg d t)))"
    if new: "\<not> truthy volume_add" and nd: "\<not> distinct (aux_names forms)"
  proof -
    consider
      (rep) pre post m where "forms = pre @ post" "same_types None (data_types pre)"
        "first_repeat [] (aux_names pre) = Some m"
    | (dif) pre f post d t where "forms = pre @ f # post" "same_types None (data_types pre)"
        "distinct (aux_names pre)" "d \<in> set (data_types pre)" "data_type_of f = Some t"
        "t \<noteq> d"
      using repeated_rows_split [OF nd] by blast
    then show ?thesis
    proof cases
      case rep
      have "?c = Inl (ValidationError (only_one_msg m))"
        unfolding rep(1) using clean_new_prefix_repeat [OF assms new rep(2,3)] .
      then show ?thesis using rep by blast
    next
      case dif
      have "?c = Inl (ValidationError (different_types_msg d t))"
        unfolding dif(1) using clean_new_prefix_different [OF assms new dif(2-6)] .
      then show ?thesis using dif by blast
    qed
  qed
  have c1: "?c = Inr () \<longrightarrow> distinct (aux_names forms)"
  proof
    assume ok: "?c = Inr ()"
    show "distinct (aux_names forms)"
    proof (rule ccontr)
      assume nd: "\<not> distinct (aux_names forms)"
      show False
      proof (cases "truthy volume_add")
        case True
        then show False using app [OF True] dup [OF nd] ok by auto
      next
        case False
        then show False using new_cases [OF False nd] ok by auto
      qed
    qed
  qed
  have c2: "truthy volume_add \<and> \<not> distinct (aux_names forms)
          \<longrightarrow> (\<exists>n. first_repeat [] (aux_names forms) = Some n
                 \<and> n \<in> set [''cache'', ''log'', ''spare'']
                 \<and> ?c = Inl (ValidationError (only_one_msg n)))"
    using app dup by blast
  have c3: "\<not> truthy volume_add \<and> forms = start @ rest
            \<and> same_types None (data_types start)
            \<and> first_repeat [] (aux_names start) = Some n
          \<longrightarrow> n \<in> set [''cache'', ''log'', ''spare'']
              \<and> ?c = Inl (ValidationError (only_one_msg n))"
  proof
    assume h: "\<not> truthy volume_add \<and> forms = start @ rest
            \<and> same_types None (data_types start)
            \<and> first_repeat [] (aux_names start) = Some n"
    then have new: "\<not> truthy volume_add" and f: "forms = start @ rest"
      and st: "same_types None (data_types start)"
      and fr: "first_repeat [] (aux_names start) = Some n" by auto
    have "n \<in> set [''cache'', ''log'', ''spare'']"
      using aux_names_subset [OF first_repeat_mem [OF fr]] by auto
    moreover have "?c = Inl (ValidationError (only_one_msg n))"
      unfolding f using clean_new_prefix_repeat [OF assms new st fr] .
    ultimately show "n \<in> set [''cache'', ''log'', ''spare'']
              \<and> ?c = Inl (ValidationError (only_one_msg n))" by simp
  qed
  have c5: "\<not> distinct (aux_names forms) \<longrightarrow> (\<exists>m. ?c = Inl (ValidationError m))"
  proof
    assume nd: "\<not> distinct (aux_names forms)"
    show "\<exists>m. ?c = Inl (ValidationError m)"
    proof (cases "truthy volume_add")
      case True
      then show ?thesis using app [OF True] dup [OF nd] by auto
    next
      case False
      then show ?thesis using new_cases [OF False nd] by auto
    qed
  qed
  show ?thesis using c1 c2 c3 new_cases c5 by blast
qed

theorem one_row_per_auxiliary_type_witness:
  "VdevFormSet_clean (\<lambda>_. [\<lparr>vtype = ''mirror'', devs = [''da0'', ''da1'']\<rparr>]) [] (Some ''tank'')
     [\<lparr>vdevtype = Some ''log'', disks = Some [''ada0'']\<rparr>,
      \<lparr>vdevtype = Some ''log mirror'', disks = Some [''ada1'', ''ada2'']\<rparr>]
     = Inl (ValidationError (only_one_msg ''log''))
   \<and> VdevFormSet_clean (\<lambda>_. []) [] None
     [\<lparr>vdevtype = Some ''spare'', disks = Some [''ada0'']\<rparr>,
      \<lparr>vdevtype = Some ''spare'', disks = Some [''ada1'']\<rparr>,
      \<lparr>vdevtype = Some ''mirror'', disks = Some [''ada2'', ''ada3'']\<rparr>,
      \<lparr>vdevtype = Some ''raidz2'', disks = Some [''ada4'', ''ada5'', ''ada6'', ''ada7'']\<rparr>]
     = Inl (ValidationError (only_one_msg ''spare''))"
  using one_row_per_auxiliary_type [of "[]" "\<lambda>_. [\<lparr>vtype = ''mirror'', devs = [''da0'', ''da1'']\<rparr>]"
     "Some ''tank''"
     "[\<lparr>vdevtype = Some ''log'', disks = Some [''ada0'']\<rparr>,
      \<lparr>vdevtype = Some ''log mirror'', disks = Some [''ada1'', ''ada2'']\<rparr>]"]
    one_row_per_auxiliary_type [of "[]" "\<lambda>_. []" None
     "[\<lparr>vdevtype = Some ''spare'', disks = Some [''ada0'']\<rparr>,
      \<lparr>vdevtype = Some ''spare'', disks = Some [''ada1'']\<rparr>,
      \<lparr>vdevtype = Some ''mirror'', disks = Some [''ada2'', ''ada3'']\<rparr>,
      \<lparr>vdevtype = Some ''raidz2'', disks = Some [''ada4'', ''ada5'', ''ada6'', ''ada7'']\<rparr>]"
     "[\<lparr>vdevtype = Some ''spare'', disks = Some [''ada0'']\<rparr>,
      \<lparr>vdevtype = Some ''spare'', disks = Some [''ada1'']\<rparr>]"
     "[\<lparr>vdevtype = Some ''mirror'', disks = Some [''ada2'', ''ada3'']\<rparr>,
      \<lparr>vdevtype = Some ''raidz2'', disks = Some [''ada4'', ''ada5'', ''ada6'', ''ada7'']\<rparr>]"
     "''spare''"]
  by (simp add: truthy_def in_tuple_def DATA_TYPES_def AUX_TYPES_def aux_names_def aux_name_def
        data_types_def data_type_of_def List.map_filter_simps)

text \<open>
  The claim as stated fails when a volume is created with two data vdev types ahead of
  the repeated auxiliary row: the error is the "different data vdev types" error.
\<close>

theorem one_row_per_auxiliary_type_counterexample:
  "VdevFormSet_clean (\<lambda>_. []) [] None
     [\<lparr>vdevtype = Some ''mirror'', disks = Some [''ada0'', ''ada1'']\<rparr>,
      \<lparr>vdevtype = Some ''raidz'', disks = Some [''ada2'', ''ada3'', ''ada4'']\<rparr>,
      \<lparr>vdevtype = Some ''cache'', disks = Some [''ada5'']\<rparr>,
      \<lparr>vdevtype = Some ''cache'', disks = Some [''ada6'']\<rparr>]
     = Inl (ValidationError
         ''You are not allowed to create a volume with different data vdev types (mirror and raidz)'')"
  by (simp add: formset_eval)

section \<open>The matcher against the languages\<close>

























































section \<open>Properties of clean_volume_name\<close>




text \<open>
  On a name without a final newline, matching the pattern is having the shape of a
  name; the pattern also matches such a name followed by one newline.
\<close>

lemma name_pattern_shape:
  "vname = [] \<or> last vname \<noteq> CHR 0x0A \<Longrightarrow> matches_name_pattern vname \<longleftrightarrow> name_shape vname"
  by (auto simp: matches_name_pattern_def)

lemma name_pattern_final_newline:
  "re_anchored True NAME_RE (''tank'' @ [CHR 0x0A]) = Some ''tank''"
  by code_simp

section \<open>Properties of _clean_zfssize_fields\<close>





text \<open>
  Outside the hypothesis on the field values: Python's \<^verbatim>\<open>$\<close> lets one final newline
  through, so the pattern alone matches a size text that is followed by a newline.
\<close>

lemma size_pattern_final_newline:
  "re_match2 True SIZE_NUM SIZE_SUF (''10G'' @ [CHR 0x0A]) = Some (''10'', Some ''G'')"
  by code_simp

section \<open>Properties of VolumeManagerForm.save\<close>

lemma run_steps_None: "run_steps fails ss = None \<longleftrightarrow> (\<forall>s\<in>set ss. \<not> fails s)"
  by (induction ss) auto

lemma run_steps_Some: "run_steps fails ss = Some e \<Longrightarrow> (\<exists>s\<in>set ss. fails s)"
  using run_steps_None [of fails ss] by auto


lemma find_name_Some:
  "find (\<lambda>v. vol_name v = n) vs = Some v \<Longrightarrow> vol_name v = n \<and> v \<in> set vs"
  by (induction vs) (auto split: if_splits)










section \<open>Properties of CronJobService\<close>

















end
